theory Spec2Isabelle
  imports Complex_Main
begin

section \<open>JavaScript strings and errors\<close>

text \<open>
  A JavaScript string is modelled as a \<^typ>\<open>string\<close>. The paths, prefixes and header
  names that the API client inspects are ASCII, so one character of the model is one
  code unit of the source string.
\<close>

definition startsWith :: "string \<Rightarrow> string \<Rightarrow> bool" where
  \<comment> \<open>\<^verbatim>\<open>s.startsWith(p)\<close>\<close>
  "startsWith s p = (take (length p) s = p)"

definition slice_from :: "nat \<Rightarrow> string \<Rightarrow> string" where
  \<comment> \<open>\<^verbatim>\<open>s.slice(n)\<close> for a non-negative \<open>n\<close>\<close>
  "slice_from n s = drop n s"

text \<open>
  A thrown value. \<open>Error m\<close> is \<^verbatim>\<open>new Error(m)\<close> with message \<open>m\<close>; the other
  constructors are the exceptions raised by the platform, each with its message:
  \<^verbatim>\<open>TypeError\<close> (a failed \<^verbatim>\<open>fetch\<close>, a string that is not a URL, a property read on
  \<^verbatim>\<open>null\<close>), \<^verbatim>\<open>SyntaxError\<close> (a body that is not JSON) and \<^verbatim>\<open>DOMException\<close> with its
  name (storage access).
\<close>

datatype js_error =
    Error string
  | TypeError string
  | SyntaxError string
  | DOMException string string

definition message_of :: "js_error \<Rightarrow> string" where
  \<comment> \<open>\<^verbatim>\<open>e.message\<close>\<close>
  "message_of e =
     (case e of
        Error m \<Rightarrow> m
      | TypeError m \<Rightarrow> m
      | SyntaxError m \<Rightarrow> m
      | DOMException name m \<Rightarrow> m)"

section \<open>JavaScript values\<close>

text \<open>
  A number is a double: a finite value, \<^verbatim>\<open>NaN\<close> or an infinity. The code compares
  numbers with zero and tests them; it does no arithmetic on them, so the finite values
  are taken as reals.
\<close>

datatype number = Finite real | NaN | PosInfinity | NegInfinity

definition isFinite :: "number \<Rightarrow> bool" where
  \<comment> \<open>\<^verbatim>\<open>Number.isFinite(n)\<close>\<close>
  "isFinite n = (case n of Finite r \<Rightarrow> True | _ \<Rightarrow> False)"

definition num_gt0 :: "number \<Rightarrow> bool" where
  \<comment> \<open>\<^verbatim>\<open>n > 0\<close>\<close>
  "num_gt0 n = (case n of Finite r \<Rightarrow> 0 < r | PosInfinity \<Rightarrow> True | _ \<Rightarrow> False)"

definition num_le0 :: "number \<Rightarrow> bool" where
  \<comment> \<open>\<^verbatim>\<open>n <= 0\<close>\<close>
  "num_le0 n = (case n of Finite r \<Rightarrow> r \<le> 0 | NegInfinity \<Rightarrow> True | _ \<Rightarrow> False)"

definition num_truthy :: "number \<Rightarrow> bool" where
  \<comment> \<open>\<^verbatim>\<open>!!n\<close>: neither zero nor \<^verbatim>\<open>NaN\<close>\<close>
  "num_truthy n = (n \<noteq> Finite 0 \<and> n \<noteq> NaN)"

text \<open>
  A value at run time: what \<^verbatim>\<open>res.json()\<close> yields, and what the code passes where
  the declared type is not enforced. An object is the list of its own properties.
\<close>

datatype jsval =
    JUndefined
  | JNull
  | JBool bool
  | JNum number
  | JStr string
  | JArr "jsval list"
  | JObj "(string \<times> jsval) list"

text \<open>
  The platform functions the code calls and the model does not define:
  \<^verbatim>\<open>new URL(path).pathname\<close>, which throws a \<^verbatim>\<open>TypeError\<close> on a string that is not a
  URL; \<^verbatim>\<open>JSON.stringify\<close>; the conversion of a number to a string and of a string to a
  number.
\<close>

record platform =
  url_pathname :: "string \<Rightarrow> js_error + string"
  json_stringify :: "jsval \<Rightarrow> string"
  number_toString :: "number \<Rightarrow> string"
  string_toNumber :: "string \<Rightarrow> number"

definition truthy :: "jsval \<Rightarrow> bool" where
  \<comment> \<open>the conversion to a boolean of \<^verbatim>\<open>if (v)\<close>, \<^verbatim>\<open>!v\<close>, \<^verbatim>\<open>v && w\<close>, \<^verbatim>\<open>v || w\<close>\<close>
  "truthy v =
     (case v of
        JUndefined \<Rightarrow> False
      | JNull \<Rightarrow> False
      | JBool b \<Rightarrow> b
      | JNum n \<Rightarrow> num_truthy n
      | JStr s \<Rightarrow> s \<noteq> []
      | JArr xs \<Rightarrow> True
      | JObj kvs \<Rightarrow> True)"

definition nullish :: "jsval \<Rightarrow> bool" where
  \<comment> \<open>the test of \<^verbatim>\<open>v ?? w\<close> and \<^verbatim>\<open>v?.p\<close>\<close>
  "nullish v = (v = JUndefined \<or> v = JNull)"

definition get_prop :: "jsval \<Rightarrow> string \<Rightarrow> jsval" where
  \<comment> \<open>\<^verbatim>\<open>v?.k\<close> for the data properties the code reads (\<open>detail\<close>, \<open>message\<close>, \<open>msg\<close>,
      \<open>access_token\<close>, \<open>tmdb_id\<close>, \<open>id\<close>, \<open>rating\<close>, ...): only an object has them\<close>
  "get_prop v k =
     (case v of
        JObj kvs \<Rightarrow> (case map_of kvs k of Some x \<Rightarrow> x | None \<Rightarrow> JUndefined)
      | _ \<Rightarrow> JUndefined)"

definition coalesce :: "jsval \<Rightarrow> jsval \<Rightarrow> jsval" where
  \<comment> \<open>\<^verbatim>\<open>v ?? w\<close>\<close>
  "coalesce v w = (if nullish v then w else v)"

definition isArray :: "jsval \<Rightarrow> bool" where
  "isArray v = (case v of JArr xs \<Rightarrow> True | _ \<Rightarrow> False)"

definition first_element :: "jsval \<Rightarrow> jsval" where
  \<comment> \<open>\<^verbatim>\<open>v[0]\<close> on an array\<close>
  "first_element v = (case v of JArr (x # xs) \<Rightarrow> x | _ \<Rightarrow> JUndefined)"

fun join_comma :: "string list \<Rightarrow> string" where
  "join_comma [] = []"
| "join_comma [s] = s"
| "join_comma (s # t # ss) = s @ '','' @ join_comma (t # ss)"

fun js_String :: "platform \<Rightarrow> jsval \<Rightarrow> string" where
  \<comment> \<open>the conversion to a string of \<^verbatim>\<open>String(v)\<close>, \<^verbatim>\<open>new Error(v)\<close> and
      \<^verbatim>\<open>localStorage.setItem(k, v)\<close>\<close>
  "js_String pf JUndefined = ''undefined''"
| "js_String pf JNull = ''null''"
| "js_String pf (JBool b) = (if b then ''true'' else ''false'')"
| "js_String pf (JNum n) = number_toString pf n"
| "js_String pf (JStr s) = s"
| "js_String pf (JArr xs) =
     join_comma (map (\<lambda>v. if v = JUndefined \<or> v = JNull then [] else js_String pf v) xs)"
| "js_String pf (JObj kvs) = ''[object Object]''"


fun show_nat :: "nat \<Rightarrow> string" where
  \<comment> \<open>the decimal rendering of a status code in a template literal\<close>
  "show_nat n =
     (if n < 10 then [''0123456789'' ! n]
      else show_nat (n div 10) @ [''0123456789'' ! (n mod 10)])"

declare show_nat.simps [simp del]

section \<open>Token storage (api.ts, both variants)\<close>

text \<open>
  The browser's \<^verbatim>\<open>localStorage\<close>. Every access throws when storage is denied
  (disabled storage, sandboxed frame), and \<^verbatim>\<open>setItem\<close> throws when the quota is
  exhausted. A call that throws leaves the stored items as they were.
\<close>

record local_storage =
  items :: "string \<rightharpoonup> string"
  denied :: bool
  full :: bool

definition storage_denied :: js_error where
  "storage_denied = DOMException ''SecurityError'' ''The operation is insecure.''"

definition storage_full :: js_error where
  "storage_full = DOMException ''QuotaExceededError'' ''The quota has been exceeded.''"

definition getItem :: "local_storage \<Rightarrow> string \<Rightarrow> js_error + string option" where
  "getItem ls k = (if denied ls then Inl storage_denied else Inr (items ls k))"

definition setItem :: "local_storage \<Rightarrow> string \<Rightarrow> string \<Rightarrow> js_error + local_storage" where
  "setItem ls k v =
     (if denied ls then Inl storage_denied
      else if full ls then Inl storage_full
      else Inr (ls\<lparr>items := (items ls)(k \<mapsto> v)\<rparr>))"

definition removeItem :: "local_storage \<Rightarrow> string \<Rightarrow> js_error + local_storage" where
  "removeItem ls k =
     (if denied ls then Inl storage_denied
      else Inr (ls\<lparr>items := (items ls)(k := None)\<rparr>))"

definition TOKEN_KEY :: string where
  "TOKEN_KEY = ''access_token''"

text \<open>
  First variant (api.ts, lines 49-66). The \<^verbatim>\<open>try\<close>/\<^verbatim>\<open>catch\<close> of the source is the
  \<open>Inl\<close> branch of each case: the exception is dropped and the function returns.
  The result type still has an error side, so that "does not throw" is a theorem and
  not a matter of typing. The argument of \<open>setToken\<close> is declared
  \<^verbatim>\<open>string | null\<close>; at run time it is whatever the login response held, so it is a
  \<^typ>\<open>jsval\<close> here: \<^verbatim>\<open>if (token)\<close> tests it and \<^verbatim>\<open>setItem\<close> stores its
  conversion to a string.
\<close>

definition getToken1 :: "local_storage \<Rightarrow> js_error + string option" where
  "getToken1 ls = (case getItem ls TOKEN_KEY of Inl e \<Rightarrow> Inr None | Inr v \<Rightarrow> Inr v)"

definition setToken1 ::
  "platform \<Rightarrow> jsval \<Rightarrow> local_storage \<Rightarrow> js_error + local_storage" where
  "setToken1 pf token ls =
     (case (if truthy token then setItem ls TOKEN_KEY (js_String pf token)
            else removeItem ls TOKEN_KEY) of
        Inl e \<Rightarrow> Inr ls
      | Inr ls' \<Rightarrow> Inr ls')"

definition clearToken1 :: "platform \<Rightarrow> local_storage \<Rightarrow> js_error + local_storage" where
  "clearToken1 pf ls = setToken1 pf JNull ls"

text \<open>Second variant (api.ts, lines 472-494).\<close>

definition getToken2 :: "local_storage \<Rightarrow> js_error + string option" where
  "getToken2 ls = (case getItem ls TOKEN_KEY of Inl e \<Rightarrow> Inr None | Inr v \<Rightarrow> Inr v)"

definition setToken2 :: "string \<Rightarrow> local_storage \<Rightarrow> js_error + local_storage" where
  "setToken2 token ls =
     (case setItem ls TOKEN_KEY token of Inl e \<Rightarrow> Inr ls | Inr ls' \<Rightarrow> Inr ls')"

definition clearToken2 :: "local_storage \<Rightarrow> js_error + local_storage" where
  "clearToken2 ls =
     (case removeItem ls TOKEN_KEY of Inl e \<Rightarrow> Inr ls | Inr ls' \<Rightarrow> Inr ls')"

section \<open>Endpoint resolution (api.ts, buildUrl)\<close>

text \<open>First variant (lines 46 and 69-73): the base is the constant \<^verbatim>\<open>"/api"\<close>.\<close>

definition BASE1 :: string where
  "BASE1 = ''/api''"

definition buildUrl1 :: "string \<Rightarrow> string" where
  "buildUrl1 path =
     (if startsWith path ''http://'' \<or> startsWith path ''https://'' then path
      else if path = ''/api'' \<or> startsWith path ''/api/'' then path
      else BASE1 @ (if startsWith path ''/'' then '''' else ''/'') @ path)"

text \<open>
  Second variant (lines 461-507). \<^verbatim>\<open>BASE\<close> comes from the build environment:
  \<^verbatim>\<open>VITE_API_BASE\<close> when set, else a default chosen by the build mode. \<^verbatim>\<open>BASE_NORM\<close>
  is \<^verbatim>\<open>BASE.replace(/\/+$/, "")\<close>: the base without its trailing slashes.
\<close>

definition BASE2 :: "string option \<Rightarrow> string \<Rightarrow> string" where
  "BASE2 vite_api_base mode =
     (case vite_api_base of
        Some b \<Rightarrow> b
      | None \<Rightarrow> if mode = ''development'' then ''/api''
                else ''https://whatnext-api.onrender.com/api'')"

definition BASE_NORM :: "string \<Rightarrow> string" where
  "BASE_NORM base = rev (dropWhile (\<lambda>c. c = CHR ''/'') (rev base))"

definition buildUrl2 :: "string \<Rightarrow> string \<Rightarrow> string" where
  "buildUrl2 base path =
     (if startsWith path ''http://'' \<or> startsWith path ''https://'' then path
      else
        let p = (if path = ''/api'' then ''''
                 else if startsWith path ''/api/'' then slice_from 4 path
                 else path)
        in BASE_NORM base @ (if startsWith p ''/'' then '''' else ''/'') @ p)"

section \<open>The HTTP helper (api.ts, http)\<close>

text \<open>
  What the helper is called with and what it hands to \<^verbatim>\<open>fetch\<close>. \<open>init_headers\<close> is the
  \<^verbatim>\<open>Headers\<close> object built from \<^verbatim>\<open>init?.headers\<close>: a map from header names to
  values, the names in lower case as \<^verbatim>\<open>Headers\<close> keeps them (\<^verbatim>\<open>has\<close> and \<^verbatim>\<open>set\<close>
  ignore case). An absent \<^verbatim>\<open>init\<close> is the record with no header and every field
  \<open>None\<close>.
\<close>

record init =
  init_headers :: "string \<rightharpoonup> string"
  init_method :: "string option"
  init_body :: "string option"
  init_credentials :: "string option"
  init_parse :: "string option"

record request =
  req_url :: string
  req_headers :: "string \<rightharpoonup> string"
  req_method :: "string option"
  req_body :: "string option"
  req_credentials :: "string option"

text \<open>
  A response as the helper reads it: the status, the status text, and the outcomes of
  \<^verbatim>\<open>res.json()\<close> and \<^verbatim>\<open>res.text()\<close>, each of which may reject.
\<close>

record response =
  res_status :: nat
  res_statusText :: string
  res_json :: "js_error + jsval"
  res_text :: "js_error + string"

definition res_ok :: "response \<Rightarrow> bool" where
  \<comment> \<open>\<^verbatim>\<open>res.ok\<close>: a status in the range 200-299\<close>
  "res_ok res = (200 \<le> res_status res \<and> res_status res \<le> 299)"

text \<open>
  The network is a function from the request to the outcome of \<^verbatim>\<open>fetch\<close>: a rejection or
  a response.
\<close>

type_synonym network = "request \<Rightarrow> js_error + response"

definition no_init :: init where
  "no_init = \<lparr>init_headers = Map.empty, init_method = None, init_body = None,
              init_credentials = None, init_parse = None\<rparr>"

definition token_truthy :: "string option \<Rightarrow> bool" where
  \<comment> \<open>\<^verbatim>\<open>tok && ...\<close> on the result of \<open>getToken\<close>\<close>
  "token_truthy t = (case t of None \<Rightarrow> False | Some s \<Rightarrow> s \<noteq> [])"

definition shouldSkipAuth :: "platform \<Rightarrow> string \<Rightarrow> js_error + bool" where
  \<comment> \<open>the same text in both variants (lines 75-78 and 514-517)\<close>
  "shouldSkipAuth pf path =
     (case (if startsWith path ''http'' then url_pathname pf path else Inr path) of
        Inl e \<Rightarrow> Inl e
      | Inr p \<Rightarrow> Inr (startsWith p ''/auth/login'' \<or> startsWith p ''/auth/register''))"

definition with_content_type :: "(string \<rightharpoonup> string) \<Rightarrow> (string \<rightharpoonup> string)" where
  \<comment> \<open>\<^verbatim>\<open>if (!headers.has("Content-Type")) headers.set("Content-Type", "application/json")\<close>\<close>
  "with_content_type h =
     (if h ''content-type'' = None then h(''content-type'' \<mapsto> ''application/json'') else h)"

text \<open>
  \<^verbatim>\<open>headers.set(name, value)\<close> as the Fetch standard defines it: the value is normalized
  (the HTTP whitespace at its ends, that is line feed, carriage return, tab and space, is
  removed), and the call throws a \<^verbatim>\<open>TypeError\<close> when the normalized value contains a
  NUL, a line feed or a carriage return. The two names the helper sets are valid header
  names, and the value \<^verbatim>\<open>application/json\<close> is stored as it is. A string here is a list
  of bytes, so the code units above 255, which \<^verbatim>\<open>Headers\<close> refuses as well, do not occur.
\<close>

definition http_whitespace :: "char \<Rightarrow> bool" where
  "http_whitespace c = (c = CHR 0x0A \<or> c = CHR 0x0D \<or> c = CHR 0x09 \<or> c = CHR 0x20)"

definition normalize_value :: "string \<Rightarrow> string" where
  "normalize_value v = rev (dropWhile http_whitespace (rev (dropWhile http_whitespace v)))"

definition header_value :: "string \<Rightarrow> bool" where
  \<comment> \<open>a normalized value that \<^verbatim>\<open>Headers\<close> accepts\<close>
  "header_value v = (CHR 0x00 \<notin> set v \<and> CHR 0x0A \<notin> set v \<and> CHR 0x0D \<notin> set v)"

definition headers_set ::
  "string \<Rightarrow> string \<Rightarrow> (string \<rightharpoonup> string) \<Rightarrow> js_error + (string \<rightharpoonup> string)" where
  "headers_set name v h =
     (if header_value (normalize_value v) then Inr (h(name \<mapsto> normalize_value v))
      else Inl (TypeError ''Invalid header value''))"

definition with_bearer ::
  "string option \<Rightarrow> (string \<rightharpoonup> string) \<Rightarrow> js_error + (string \<rightharpoonup> string)" where
  \<comment> \<open>\<^verbatim>\<open>if (tok && !headers.has("Authorization")) headers.set("Authorization", `Bearer ${tok}`)\<close>\<close>
  "with_bearer tok h =
     (if token_truthy tok \<and> h ''authorization'' = None
      then headers_set ''authorization'' (''Bearer '' @ the tok) h else Inr h)"

text \<open>First variant (lines 80-123). \<open>request1\<close> is the part of \<open>http\<close> before \<^verbatim>\<open>fetch\<close>.\<close>

definition request1 :: "platform \<Rightarrow> string \<Rightarrow> init \<Rightarrow> local_storage \<Rightarrow> js_error + request" where
  "request1 pf path init ls =
     (let url = buildUrl1 path;
          headers = with_content_type (init_headers init)
      in case shouldSkipAuth pf path of
           Inl e \<Rightarrow> Inl e
         | Inr skip \<Rightarrow>
             (case (if \<not> skip
                    then (case getToken1 ls of
                            Inl e \<Rightarrow> Inl e
                          | Inr tok \<Rightarrow> with_bearer tok headers)
                    else Inr headers) of
                Inl e \<Rightarrow> Inl e
              | Inr headers' \<Rightarrow>
                  Inr \<lparr>req_url = url, req_headers = headers',
                       req_method = init_method init, req_body = init_body init,
                       req_credentials =
                         Some (case init_credentials init of
                                 Some c \<Rightarrow> c | None \<Rightarrow> ''same-origin'')\<rparr>))"

definition error_message1 :: "platform \<Rightarrow> response \<Rightarrow> string" where
  \<comment> \<open>lines 109-115; the \<^verbatim>\<open>try\<close> covers \<^verbatim>\<open>res.json()\<close>, whose rejection keeps the
      initial message\<close>
  "error_message1 pf res =
     (let msg = ''HTTP '' @ show_nat (res_status res)
      in case res_json res of
           Inl e \<Rightarrow> msg
         | Inr j \<Rightarrow>
             (case get_prop j ''detail'' of
                JStr s \<Rightarrow> s
              | d \<Rightarrow>
                  if isArray d \<and> truthy (get_prop (first_element d) ''msg'')
                  then js_String pf (get_prop (first_element d) ''msg'')
                  else msg))"

definition respond1 ::
  "platform \<Rightarrow> init \<Rightarrow> response \<Rightarrow> local_storage \<Rightarrow>
   (js_error + jsval) \<times> local_storage" where
  "respond1 pf init res ls =
     (case (if res_status res = 401 then clearToken1 pf ls else Inr ls) of
        Inl e \<Rightarrow> (Inl e, ls)
      | Inr ls' \<Rightarrow>
          if \<not> res_ok res then (Inl (Error (error_message1 pf res)), ls')
          else if init_parse init = Some ''text'' then
            (case res_text res of Inl e \<Rightarrow> (Inl e, ls') | Inr t \<Rightarrow> (Inr (JStr t), ls'))
          else if res_status res = 204 then (Inr JUndefined, ls')
          else (case res_json res of Inl e \<Rightarrow> (Inl e, ls') | Inr j \<Rightarrow> (Inr j, ls')))"

definition http1 ::
  "platform \<Rightarrow> network \<Rightarrow> string \<Rightarrow> init \<Rightarrow> local_storage \<Rightarrow>
   (js_error + jsval) \<times> local_storage" where
  "http1 pf net path init ls =
     (case request1 pf path init ls of
        Inl e \<Rightarrow> (Inl e, ls)
      | Inr req \<Rightarrow>
          (case net req of
             Inl e \<Rightarrow> (Inl e, ls)
           | Inr res \<Rightarrow> respond1 pf init res ls))"

text \<open>
  Second variant (lines 519-563). The base is a parameter, as for \<open>buildUrl2\<close>. The
  helper passes \<^verbatim>\<open>credentials\<close> on as given and never writes to the storage.
\<close>

definition request2 ::
  "platform \<Rightarrow> string \<Rightarrow> string \<Rightarrow> init \<Rightarrow> local_storage \<Rightarrow> js_error + request" where
  "request2 pf base path init ls =
     (let url = buildUrl2 base path;
          headers = with_content_type (init_headers init)
      in case shouldSkipAuth pf path of
           Inl e \<Rightarrow> Inl e
         | Inr skip \<Rightarrow>
             (case (if \<not> skip
                    then (case getToken2 ls of
                            Inl e \<Rightarrow> Inl e
                          | Inr tok \<Rightarrow> with_bearer tok headers)
                    else Inr headers) of
                Inl e \<Rightarrow> Inl e
              | Inr headers' \<Rightarrow>
                  Inr \<lparr>req_url = url, req_headers = headers',
                       req_method = init_method init, req_body = init_body init,
                       req_credentials = init_credentials init\<rparr>))"

definition error_detail2 :: "response \<Rightarrow> jsval" where
  \<comment> \<open>lines 543-552: the parsed body, else the body text, else \<^verbatim>\<open>null\<close>\<close>
  "error_detail2 res =
     (case res_json res of
        Inr j \<Rightarrow> j
      | Inl e \<Rightarrow> (case res_text res of Inr t \<Rightarrow> JStr t | Inl e' \<Rightarrow> JNull))"

definition error_message2 :: "platform \<Rightarrow> response \<Rightarrow> string" where
  \<comment> \<open>lines 553-556: \<^verbatim>\<open>(detail && (detail.detail ?? detail.message ?? JSON.stringify(detail)))
      || `${res.status} ${res.statusText}`\<close>, converted to a string by \<^verbatim>\<open>new Error\<close>\<close>
  "error_message2 pf res =
     (let detail = error_detail2 res;
          message =
            (if truthy detail then
               (if \<not> nullish (get_prop detail ''detail'') then get_prop detail ''detail''
                else if \<not> nullish (get_prop detail ''message'') then get_prop detail ''message''
                else JStr (json_stringify pf detail))
             else detail)
      in if truthy message then js_String pf message
         else show_nat (res_status res) @ '' '' @ res_statusText res)"

definition respond2 :: "platform \<Rightarrow> init \<Rightarrow> response \<Rightarrow> js_error + jsval" where
  "respond2 pf init res =
     (if \<not> res_ok res then Inl (Error (error_message2 pf res))
      else if init_parse init = Some ''text'' then
        (case res_text res of Inl e \<Rightarrow> Inl e | Inr t \<Rightarrow> Inr (JStr t))
      else if res_status res = 204 then Inr JUndefined
      else (case res_json res of Inl e \<Rightarrow> Inl e | Inr j \<Rightarrow> Inr j))"

definition http2 ::
  "platform \<Rightarrow> network \<Rightarrow> string \<Rightarrow> string \<Rightarrow> init \<Rightarrow> local_storage \<Rightarrow>
   (js_error + jsval) \<times> local_storage" where
  "http2 pf net base path init ls =
     (case request2 pf base path init ls of
        Inl e \<Rightarrow> (Inl e, ls)
      | Inr req \<Rightarrow>
          (case net req of
             Inl e \<Rightarrow> (Inl e, ls)
           | Inr res \<Rightarrow> (respond2 pf init res, ls)))"

section \<open>Login (api.ts and auth/AuthProvider.tsx)\<close>





section \<open>The favourite button (components/HeartButton.tsx)\<close>

text \<open>
  The component's state (\<open>fav\<close>, \<open>busy\<close>) and what it emits: the values passed to
  \<^verbatim>\<open>console.error\<close> and the calls of the \<open>onChange\<close> prop. The API functions are
  parameters, each giving the outcome of the awaited call: the repository holds several
  copies of the API module, and the component only awaits the call. An \<^verbatim>\<open>async\<close>
  function returns a promise; the result is \<open>Inl\<close> when the promise rejects.
\<close>

record heart_button =
  hb_fav :: bool
  hb_busy :: bool
  hb_console :: "js_error list"
  hb_changes :: "bool list"

definition canToggle :: "number \<Rightarrow> number option \<Rightarrow> bool" where
  \<comment> \<open>\<^verbatim>\<open>!!tmdbId && userId > 0\<close> (line 16)\<close>
  "canToggle userId tmdbId =
     ((case tmdbId of None \<Rightarrow> False | Some t \<Rightarrow> num_truthy t) \<and> num_gt0 userId)"

definition toggle ::
  "(number \<Rightarrow> number \<Rightarrow> js_error + jsval) \<Rightarrow> (number \<Rightarrow> number \<Rightarrow> js_error + jsval) \<Rightarrow>
   number \<Rightarrow> number option \<Rightarrow> heart_button \<Rightarrow> (js_error + unit) \<times> heart_button" where
  \<comment> \<open>lines 18-37\<close>
  "toggle addFavorite removeFavorite userId tmdbId hb =
     (if \<not> canToggle userId tmdbId \<or> hb_busy hb then (Inr (), hb)
      else
        let hb1 = hb\<lparr>hb_busy := True\<rparr>;
            hb2 =
              (if hb_fav hb then
                 (case removeFavorite userId (the tmdbId) of
                    Inl e \<Rightarrow> hb1\<lparr>hb_console := hb_console hb1 @ [e]\<rparr>
                  | Inr r \<Rightarrow> hb1\<lparr>hb_fav := False, hb_changes := hb_changes hb1 @ [False]\<rparr>)
               else
                 (case addFavorite userId (the tmdbId) of
                    Inl e \<Rightarrow> hb1\<lparr>hb_console := hb_console hb1 @ [e]\<rparr>
                  | Inr r \<Rightarrow> hb1\<lparr>hb_fav := True, hb_changes := hb_changes hb1 @ [True]\<rparr>))
        in (Inr (), hb2\<lparr>hb_busy := False\<rparr>))"

section \<open>The show page: favourites and hidden shows (ShowDetails)\<close>

text \<open>
  The state variables of the component that hold the user's library, and what the
  component emits through \<open>notify\<close> and \<open>navigate\<close>. The identifiers are the numbers
  of the lists; a \<^verbatim>\<open>Set\<close> of them has a number if the list has it.
\<close>

record show_details =
  favoriteIds :: "number list"
  favoritesLoading :: bool
  favoritesError :: "string option"
  notInterestedIds :: "number list"
  notInterestedLoading :: bool
  notInterestedError :: "string option"
  alerts :: "string list"
  navigations :: "string list"

definition getTmdbId :: "jsval \<Rightarrow> number option" where
  \<comment> \<open>lines 95-100; \<open>None\<close> is \<^verbatim>\<open>null\<close>\<close>
  "getTmdbId s =
     (if \<not> truthy s then None
      else case get_prop s ''tmdb_id'' of
             JNum n \<Rightarrow> Some n
           | _ \<Rightarrow> (case get_prop s ''id'' of JNum n \<Rightarrow> Some n | _ \<Rightarrow> None))"

definition isFavorite :: "show_details \<Rightarrow> jsval option \<Rightarrow> bool" where
  \<comment> \<open>lines 435-440\<close>
  "isFavorite sd s =
     (case s of
        None \<Rightarrow> False
      | Some d \<Rightarrow>
          if \<not> truthy d then False
          else (case getTmdbId d of
                  None \<Rightarrow> False
                | Some tid \<Rightarrow> if \<not> num_truthy tid then False else tid \<in> set (favoriteIds sd)))"


text \<open>
  \<open>handleToggleFavorite\<close> (lines 449-473), with \<open>data\<close>, \<open>userId\<close> and
  \<open>isAuthenticated\<close> of the render it belongs to. What is thrown inside the \<^verbatim>\<open>try\<close> is
  an error object, whose \<open>message\<close> is a string, so \<^verbatim>\<open>e?.message ?? "..."\<close> is the
  message.
\<close>

definition handleToggleFavorite ::
  "(jsval \<Rightarrow> number \<Rightarrow> js_error + jsval) \<Rightarrow> (jsval \<Rightarrow> number \<Rightarrow> js_error + jsval) \<Rightarrow>
   jsval option \<Rightarrow> jsval \<Rightarrow> bool \<Rightarrow> show_details \<Rightarrow> (js_error + unit) \<times> show_details" where
  "handleToggleFavorite addFavorite removeFavorite data userId isAuthenticated sd =
     (case data of
        None \<Rightarrow> (Inr (), sd)
      | Some d \<Rightarrow>
          if \<not> truthy d then (Inr (), sd)
          else
            (case getTmdbId d of
               None \<Rightarrow> (Inr (), sd)
             | Some tid \<Rightarrow>
                 if \<not> num_truthy tid then (Inr (), sd)
                 else if \<not> truthy userId \<or> \<not> isAuthenticated then
                   (Inr (),
                    sd\<lparr>alerts := alerts sd @ [''Please log in to manage favourites.''],
                       navigations := navigations sd @ [''/login'']\<rparr>)
                 else if tid \<in> set (favoriteIds sd) then
                   (case removeFavorite userId tid of
                      Inl e \<Rightarrow> (Inr (), sd\<lparr>alerts := alerts sd @ [message_of e]\<rparr>)
                    | Inr r \<Rightarrow>
                        (Inr (),
                         sd\<lparr>favoriteIds := filter (\<lambda>x. x \<noteq> tid) (favoriteIds sd),
                            alerts := alerts sd @ [''Removed from favourites.'']\<rparr>))
                 else
                   (case addFavorite userId tid of
                      Inl e \<Rightarrow> (Inr (), sd\<lparr>alerts := alerts sd @ [message_of e]\<rparr>)
                    | Inr r \<Rightarrow>
                        (Inr (),
                         sd\<lparr>favoriteIds :=
                              (if tid \<in> set (favoriteIds sd) then favoriteIds sd
                               else favoriteIds sd @ [tid]),
                            alerts := alerts sd @ [''Added to favourites.'']\<rparr>))))"

text \<open>
  The loads of the library effect (lines 290-329). Each is in two parts: what runs
  before the \<^verbatim>\<open>await\<close>, and what runs when the awaited call settles, with the value
  that the closure variable \<open>cancelled\<close> has at that moment. The three tests of
  \<open>cancelled\<close> are those of the \<^verbatim>\<open>try\<close>, \<^verbatim>\<open>catch\<close> and \<^verbatim>\<open>finally\<close> blocks.
\<close>

fun mapped_ids :: "jsval list \<Rightarrow> js_error + number list" where
  \<comment> \<open>\<^verbatim>\<open>.map((s) => s.tmdb_id ?? s.id).filter((tid) => typeof tid === "number")\<close>; reading a
      property of \<^verbatim>\<open>null\<close> or \<^verbatim>\<open>undefined\<close> throws\<close>
  "mapped_ids [] = Inr []"
| "mapped_ids (s # ss) =
     (if nullish s then Inl (TypeError ''Cannot read properties of null'')
      else case mapped_ids ss of
             Inl e \<Rightarrow> Inl e
           | Inr ns \<Rightarrow>
               (case coalesce (get_prop s ''tmdb_id'') (get_prop s ''id'') of
                  JNum n \<Rightarrow> Inr (n # ns)
                | _ \<Rightarrow> Inr ns))"


definition fetchFavorites_start :: "show_details \<Rightarrow> show_details" where
  "fetchFavorites_start sd = sd\<lparr>favoritesLoading := True, favoritesError := None\<rparr>"

definition fetchFavorites_settle ::
  "js_error + jsval list option \<Rightarrow> bool \<Rightarrow> show_details \<Rightarrow> show_details" where
  "fetchFavorites_settle outcome cancelled sd =
     (let tried =
            (case outcome of
               Inl e \<Rightarrow> (Some e, sd)
             | Inr favs \<Rightarrow>
                 if \<not> cancelled then
                   (case mapped_ids (case favs of None \<Rightarrow> [] | Some xs \<Rightarrow> xs) of
                      Inl e \<Rightarrow> (Some e, sd)
                    | Inr mapped \<Rightarrow> (None, sd\<lparr>favoriteIds := mapped\<rparr>))
                 else (None, sd));
          caught =
            (case fst tried of
               Some e \<Rightarrow>
                 if \<not> cancelled then (snd tried)\<lparr>favoritesError := Some (message_of e)\<rparr>
                 else snd tried
             | None \<Rightarrow> snd tried)
      in if \<not> cancelled then caught\<lparr>favoritesLoading := False\<rparr> else caught)"

definition fetchNotInterested_start :: "show_details \<Rightarrow> show_details" where
  "fetchNotInterested_start sd =
     sd\<lparr>notInterestedLoading := True, notInterestedError := None\<rparr>"

definition fetchNotInterested_settle ::
  "js_error + number list option \<Rightarrow> bool \<Rightarrow> show_details \<Rightarrow> show_details" where
  "fetchNotInterested_settle outcome cancelled sd =
     (let tried =
            (case outcome of
               Inl e \<Rightarrow> (Some e, sd)
             | Inr ni \<Rightarrow>
                 if \<not> cancelled then
                   (None, sd\<lparr>notInterestedIds := (case ni of None \<Rightarrow> [] | Some xs \<Rightarrow> xs)\<rparr>)
                 else (None, sd));
          caught =
            (case fst tried of
               Some e \<Rightarrow>
                 if \<not> cancelled then (snd tried)\<lparr>notInterestedError := Some (message_of e)\<rparr>
                 else snd tried
             | None \<Rightarrow> snd tried)
      in if \<not> cancelled then caught\<lparr>notInterestedLoading := False\<rparr> else caught)"

section \<open>The favourites page (pages/favorites.tsx)\<close>








section \<open>Effects and their \<open>cancelled\<close> flags\<close>

text \<open>
  How React runs an effect such as \<^verbatim>\<open>useEffect(() => { ...; let cancelled = false; ...;
  return () => { cancelled = true; }; }, [deps])\<close>. Each run that reaches
  \<^verbatim>\<open>let cancelled = false\<close> creates a new variable, starts its loads and returns a
  cleanup that closes over the variable. When the dependencies change React calls the
  cleanup of the previous run, if it returned one, and runs the effect again; on unmount
  it calls the cleanup. A load settles later, at any time, and its continuation reads
  the variable of the run that started it.

  The runs that start loads are numbered from 0: the number is the generation of the
  load. \<open>flags\<close> holds the variable \<open>cancelled\<close> of each generation, \<open>issued\<close> is the
  number of generations so far, and \<open>pending_cleanup\<close> is the generation whose cleanup
  React holds.
\<close>

record 'v hook =
  view :: 'v
  issued :: nat
  flags :: "nat \<Rightarrow> bool"
  pending_cleanup :: "nat option"

datatype ('d, 'o) hook_event =
    Render 'd
  | Settle nat 'o
  | Unmount

definition hook_init :: "'v \<Rightarrow> 'v hook" where
  "hook_init v = \<lparr>view = v, issued = 0, flags = (\<lambda>g. False), pending_cleanup = None\<rparr>"

definition run_cleanup :: "'v hook \<Rightarrow> 'v hook" where
  "run_cleanup h =
     (case pending_cleanup h of
        None \<Rightarrow> h
      | Some g \<Rightarrow> h\<lparr>flags := (flags h)(g := True), pending_cleanup := None\<rparr>)"

text \<open>
  The body of an effect is given by what it does to the view before its first
  \<^verbatim>\<open>await\<close> and by whether it started loads (and returned a cleanup) or returned early.
  The continuation of a load takes the outcome, the value of \<open>cancelled\<close> and the view.
\<close>

definition run_effect :: "('d \<Rightarrow> 'v \<Rightarrow> 'v \<times> bool) \<Rightarrow> 'd \<Rightarrow> 'v hook \<Rightarrow> 'v hook" where
  "run_effect body deps h =
     (let h1 = run_cleanup h;
          started = snd (body deps (view h1));
          h2 = h1\<lparr>view := fst (body deps (view h1))\<rparr>
      in if started
         then h2\<lparr>flags := (flags h2)(issued h2 := False),
                 pending_cleanup := Some (issued h2),
                 issued := Suc (issued h2)\<rparr>
         else h2)"

definition hook_step ::
  "('d \<Rightarrow> 'v \<Rightarrow> 'v \<times> bool) \<Rightarrow> ('o \<Rightarrow> bool \<Rightarrow> 'v \<Rightarrow> 'v) \<Rightarrow> 'v hook \<Rightarrow> ('d, 'o) hook_event \<Rightarrow>
   'v hook" where
  "hook_step body settle h ev =
     (case ev of
        Render deps \<Rightarrow> run_effect body deps h
      | Settle g outcome \<Rightarrow>
          if g < issued h then h\<lparr>view := settle outcome (flags h g) (view h)\<rparr> else h
      | Unmount \<Rightarrow> run_cleanup h)"

definition hook_run ::
  "('d \<Rightarrow> 'v \<Rightarrow> 'v \<times> bool) \<Rightarrow> ('o \<Rightarrow> bool \<Rightarrow> 'v \<Rightarrow> 'v) \<Rightarrow> 'v hook \<Rightarrow>
   ('d, 'o) hook_event list \<Rightarrow> 'v hook" where
  "hook_run body settle h evs = foldl (hook_step body settle) h evs"

subsection \<open>The show effect of \<open>useTmdbShow\<close> (lines 127-173)\<close>

record show_state =
  st_data :: "jsval option"
  st_loading :: bool
  st_error :: "string option"

definition show_state_init :: show_state where
  \<comment> \<open>the \<^verbatim>\<open>useState\<close> defaults (lines 128-132)\<close>
  "show_state_init = \<lparr>st_data = None, st_loading = True, st_error = None\<rparr>"

definition invalid_id :: "number option \<Rightarrow> bool" where
  \<comment> \<open>\<^verbatim>\<open>id == null || !Number.isFinite(id) || id <= 0\<close>\<close>
  "invalid_id i = (case i of None \<Rightarrow> True | Some n \<Rightarrow> \<not> isFinite n \<or> num_le0 n)"

definition useTmdbShow_effect :: "number option \<Rightarrow> show_state \<Rightarrow> show_state \<times> bool" where
  \<comment> \<open>lines 136-148 and 168-172\<close>
  "useTmdbShow_effect i s =
     (if invalid_id i
      then (s\<lparr>st_data := None, st_loading := False, st_error := Some ''Invalid show ID''\<rparr>,
            False)
      else (s\<lparr>st_loading := True, st_error := None\<rparr>, True))"

definition fetchShow_settle :: "js_error + response \<Rightarrow> bool \<Rightarrow> show_state \<Rightarrow> show_state" where
  \<comment> \<open>lines 149-165, from the settling of \<^verbatim>\<open>fetch\<close> on; what is thrown is an error object,
      so \<^verbatim>\<open>e?.message ?? "..."\<close> is its message\<close>
  "fetchShow_settle outcome cancelled s =
     (let tried =
            (case outcome of
               Inl e \<Rightarrow> (Some e, s)
             | Inr res \<Rightarrow>
                 if \<not> res_ok res
                 then (Some (Error (''HTTP '' @ show_nat (res_status res))), s)
                 else (case res_json res of
                         Inl e \<Rightarrow> (Some e, s)
                       | Inr json \<Rightarrow>
                           if \<not> cancelled then (None, s\<lparr>st_data := Some json\<rparr>)
                           else (None, s)));
          caught =
            (case fst tried of
               Some e \<Rightarrow>
                 if \<not> cancelled then (snd tried)\<lparr>st_error := Some (message_of e)\<rparr>
                 else snd tried
             | None \<Rightarrow> snd tried)
      in if \<not> cancelled then caught\<lparr>st_loading := False\<rparr> else caught)"

subsection \<open>The library effect of \<open>ShowDetails\<close> (lines 279-337)\<close>

text \<open>
  One run starts two loads that share one \<open>cancelled\<close> variable, so an outcome says
  which of the two loads of its generation settled.
\<close>

datatype library_outcome =
    FavoritesSettled "js_error + jsval list option"
  | NotInterestedSettled "js_error + number list option"

definition library_effect :: "jsval \<Rightarrow> show_details \<Rightarrow> show_details \<times> bool" where
  \<comment> \<open>lines 280-294, 313-316 and 331-336; the dependency is \<open>userId\<close>\<close>
  "library_effect userId sd =
     (if \<not> truthy userId
      then (sd\<lparr>favoriteIds := [], notInterestedIds := [],
               favoritesError := None, notInterestedError := None\<rparr>, False)
      else (fetchNotInterested_start (fetchFavorites_start sd), True))"

definition library_settle :: "library_outcome \<Rightarrow> bool \<Rightarrow> show_details \<Rightarrow> show_details" where
  "library_settle outcome cancelled sd =
     (case outcome of
        FavoritesSettled r \<Rightarrow> fetchFavorites_settle r cancelled sd
      | NotInterestedSettled r \<Rightarrow> fetchNotInterested_settle r cancelled sd)"

definition show_details_init :: show_details where
  \<comment> \<open>the \<^verbatim>\<open>useState\<close> defaults (lines 260-266)\<close>
  "show_details_init =
     \<lparr>favoriteIds = [], favoritesLoading = False, favoritesError = None,
      notInterestedIds = [], notInterestedLoading = False, notInterestedError = None,
      alerts = [], navigations = []\<rparr>"

section \<open>Concrete inputs for the examples\<close>

text \<open>
  The inputs at which the theorems below are evaluated: a platform (its conversions
  between numbers and strings are right on 8 and 42, the numbers of the examples, and the
  examples with a path never parse a URL), a storage that holds
  a token, a response with a JSON body (whose text can no longer be read once the body
  was parsed), and a backend that answers the login request with one response and every
  other request with another.
\<close>

definition example_platform :: platform where
  "example_platform =
     \<lparr>url_pathname = (\<lambda>u. Inl (TypeError ''Invalid URL'')),
      json_stringify = (\<lambda>v. ''{}''),
      number_toString = (\<lambda>n. if n = Finite 8 then ''8'' else ''42''),
      string_toNumber = (\<lambda>s. if s = ''8'' then Finite 8 else if s = ''42'' then Finite 42 else NaN)\<rparr>"

definition example_storage :: "string \<Rightarrow> local_storage" where
  "example_storage t = \<lparr>items = [TOKEN_KEY \<mapsto> t], denied = False, full = False\<rparr>"

definition json_reply :: "nat \<Rightarrow> string \<Rightarrow> jsval \<Rightarrow> response" where
  "json_reply code line body =
     \<lparr>res_status = code, res_statusText = line, res_json = Inr body,
      res_text = Inl (TypeError ''body stream already read'')\<rparr>"

definition login_backend :: "response \<Rightarrow> response \<Rightarrow> network" where
  "login_backend login_res other_res req =
     (if req_url req = ''/api/auth/login'' then Inr login_res else Inr other_res)"







section \<open>Properties of the token helpers\<close>

lemma getToken1_value:
  "getToken1 ls = Inr (if denied ls then None else items ls TOKEN_KEY)"
  by (simp add: getToken1_def getItem_def)

lemma getToken2_value:
  "getToken2 ls = Inr (if denied ls then None else items ls TOKEN_KEY)"
  by (simp add: getToken2_def getItem_def)

lemma setToken1_value:
  "setToken1 pf token ls =
     Inr (if denied ls then ls
          else if truthy token then
            (if full ls then ls
             else ls\<lparr>items := (items ls)(TOKEN_KEY \<mapsto> js_String pf token)\<rparr>)
          else ls\<lparr>items := (items ls)(TOKEN_KEY := None)\<rparr>)"
  by (simp add: setToken1_def setItem_def removeItem_def)

lemma clearToken1_value:
  "clearToken1 pf ls =
     Inr (if denied ls then ls else ls\<lparr>items := (items ls)(TOKEN_KEY := None)\<rparr>)"
  by (simp add: clearToken1_def setToken1_value truthy_def)

lemma setToken2_value:
  "setToken2 token ls =
     Inr (if denied ls \<or> full ls then ls
          else ls\<lparr>items := (items ls)(TOKEN_KEY \<mapsto> token)\<rparr>)"
  by (simp add: setToken2_def setItem_def)

lemma clearToken2_value:
  "clearToken2 ls =
     Inr (if denied ls then ls else ls\<lparr>items := (items ls)(TOKEN_KEY := None)\<rparr>)"
  by (simp add: clearToken2_def removeItem_def)

text \<open>
  Claim C9. In both variants \<open>getToken\<close>, \<open>setToken\<close> and \<open>clearToken\<close> return normally
  for every state of the storage, also one in which every access throws; \<open>getToken\<close>
  returns a string or \<^verbatim>\<open>null\<close>.
\<close>

theorem token_helpers_total:
  "(\<exists>r. getToken1 ls = Inr r) \<and> (\<exists>ls'. setToken1 pf token ls = Inr ls') \<and>
   (\<exists>ls'. clearToken1 pf ls = Inr ls') \<and>
   (\<exists>r. getToken2 ls = Inr r) \<and> (\<exists>ls'. setToken2 tok ls = Inr ls') \<and>
   (\<exists>ls'. clearToken2 ls = Inr ls')"
  by (simp add: getToken1_value setToken1_value clearToken1_value
      getToken2_value setToken2_value clearToken2_value)

section \<open>Properties of endpoint resolution\<close>

lemma startsWith_append [simp]: "startsWith (p @ s) p"
  by (simp add: startsWith_def)

lemma startsWith_Cons_Cons:
  "startsWith (c # s) (d # p) = (c = d \<and> startsWith s p)"
  by (auto simp: startsWith_def)

lemma startsWith_Nil [simp]: "startsWith s []"
  by (simp add: startsWith_def)

lemma startsWith_Nil_left: "startsWith [] p = (p = [])"
  by (auto simp: startsWith_def)

lemma BASE_NORM_api: "BASE_NORM (b @ ''/api'') = b @ ''/api''"
  by (simp add: BASE_NORM_def)

text \<open>
  Claim C10. A path that begins with \<^verbatim>\<open>http://\<close> or \<^verbatim>\<open>https://\<close> is returned as it
  is by both variants of \<open>buildUrl\<close>, whatever the base.
\<close>

theorem buildUrl_absolute_identity:
  assumes "startsWith path ''http://'' \<or> startsWith path ''https://''"
  shows "buildUrl1 path = path \<and> buildUrl2 base path = path"
  using assms by (auto simp: buildUrl1_def buildUrl2_def)

theorem buildUrl_absolute_identity_witness:
  "startsWith ''https://image.tmdb.org/t/p/w500/x.jpg'' ''https://'' \<and>
   buildUrl1 ''https://image.tmdb.org/t/p/w500/x.jpg'' = ''https://image.tmdb.org/t/p/w500/x.jpg'' \<and>
   buildUrl2 ''/api/'' ''https://image.tmdb.org/t/p/w500/x.jpg'' = ''https://image.tmdb.org/t/p/w500/x.jpg''"
proof -
  have h: "startsWith ''https://image.tmdb.org/t/p/w500/x.jpg'' ''https://''"
    by (simp add: startsWith_def)
  from buildUrl_absolute_identity [of "''https://image.tmdb.org/t/p/w500/x.jpg''" "''/api/''"] h
  show ?thesis by blast
qed

text \<open>
  Claim C1, as the code has it. A path \<open>q\<close> that starts with a slash and is not itself
  \<^verbatim>\<open>/api\<close> or under \<^verbatim>\<open>/api/\<close> resolves to the same URL with and without the
  prefix \<^verbatim>\<open>/api\<close> in front: base followed by \<open>q\<close>, where the base of the first variant
  is the constant \<^verbatim>\<open>/api\<close> and the base of the second variant is any configured base
  that ends in \<^verbatim>\<open>/api\<close>. The prefix is removed once, so a path whose remainder is again
  under \<^verbatim>\<open>/api/\<close> is outside this statement.
\<close>

theorem buildUrl_prefix_normalised:
  assumes "startsWith q ''/''" and "q \<noteq> ''/api''" and "\<not> startsWith q ''/api/''"
  shows "buildUrl1 (''/api'' @ q) = ''/api'' @ q \<and> buildUrl1 q = ''/api'' @ q \<and>
         buildUrl2 (b @ ''/api'') (''/api'' @ q) = b @ ''/api'' @ q \<and>
         buildUrl2 (b @ ''/api'') q = b @ ''/api'' @ q"
proof -
  from assms(1) obtain r where q: "q = CHR ''/'' # r"
    by (cases q) (auto simp: startsWith_def)
  have abs: "\<not> startsWith q ''http://''" "\<not> startsWith q ''https://''"
    by (simp_all add: q startsWith_Cons_Cons)
  have pre: "startsWith (''/api'' @ q) ''/api/''"
    by (simp add: q startsWith_Cons_Cons)
  have absp: "\<not> startsWith (''/api'' @ q) ''http://''" "\<not> startsWith (''/api'' @ q) ''https://''"
    by (simp_all add: startsWith_Cons_Cons)
  have ne: "''/api'' @ q \<noteq> ''/api''"
    by (simp add: q)
  have v1a: "buildUrl1 (''/api'' @ q) = ''/api'' @ q"
    using pre absp by (simp add: buildUrl1_def)
  have v1b: "buildUrl1 q = ''/api'' @ q"
    using abs assms by (simp add: buildUrl1_def BASE1_def)
  have v2a: "buildUrl2 (b @ ''/api'') (''/api'' @ q) = b @ ''/api'' @ q"
    using pre absp ne assms(1) by (simp add: buildUrl2_def slice_from_def BASE_NORM_api Let_def)
  have v2b: "buildUrl2 (b @ ''/api'') q = b @ ''/api'' @ q"
    using abs assms by (simp add: buildUrl2_def BASE_NORM_api Let_def)
  from v1a v1b v2a v2b show ?thesis by blast
qed

theorem buildUrl_prefix_normalised_witness:
  "startsWith ''/shows/5'' ''/'' \<and> ''/shows/5'' \<noteq> ''/api'' \<and>
   \<not> startsWith ''/shows/5'' ''/api/'' \<and>
   buildUrl1 ''/api/shows/5'' = ''/api/shows/5'' \<and>
   buildUrl1 ''/shows/5'' = ''/api/shows/5'' \<and>
   buildUrl2 ''https://api.example.com/api'' ''/api/shows/5'' =
     ''https://api.example.com/api/shows/5'' \<and>
   buildUrl2 ''https://api.example.com/api'' ''/shows/5'' =
     ''https://api.example.com/api/shows/5''"
proof -
  have h1: "startsWith ''/shows/5'' ''/''" by (simp add: startsWith_def)
  have h2: "''/shows/5'' \<noteq> ''/api''" by simp
  have h3: "\<not> startsWith ''/shows/5'' ''/api/''" by (simp add: startsWith_def)
  from buildUrl_prefix_normalised [OF h1 h2 h3, of "''https://api.example.com''"] h1 h2 h3
  show ?thesis by simp
qed

text \<open>
  The claim as stated, for every path that starts with \<^verbatim>\<open>/api/\<close>, fails where the
  remainder is itself under \<^verbatim>\<open>/api/\<close>: the two resolutions differ in both variants.
  The first variant has no configured base: it resolves \<^verbatim>\<open>/api/shows/5\<close> to that same
  relative URL.
\<close>

theorem buildUrl_prefix_counterexample:
  "startsWith ''/api/api/shows/5'' ''/api/'' \<and>
   slice_from 4 ''/api/api/shows/5'' = ''/api/shows/5'' \<and>
   buildUrl2 ''https://api.example.com/api'' ''/api/api/shows/5'' =
     ''https://api.example.com/api/api/shows/5'' \<and>
   buildUrl2 ''https://api.example.com/api'' ''/api/shows/5'' =
     ''https://api.example.com/api/shows/5'' \<and>
   buildUrl2 ''https://api.example.com/api'' ''/api/api/shows/5'' \<noteq>
     buildUrl2 ''https://api.example.com/api'' ''/api/shows/5'' \<and>
   buildUrl1 ''/api/api/shows/5'' \<noteq> buildUrl1 ''/api/shows/5'' \<and>
   buildUrl1 ''/api/shows/5'' = ''/api/shows/5''"
  by (simp add: buildUrl1_def buildUrl2_def startsWith_def slice_from_def BASE_NORM_def)

section \<open>Properties of the HTTP helper\<close>

lemmas eval_js = truthy_def nullish_def get_prop_def isArray_def first_element_def

lemmas eval_examples =
  example_platform_def example_storage_def json_reply_def login_backend_def no_init_def
  TOKEN_KEY_def

lemmas eval_request =
  shouldSkipAuth_def startsWith_def buildUrl1_def buildUrl2_def BASE1_def BASE_NORM_def
  slice_from_def with_content_type_def with_bearer_def headers_set_def normalize_value_def
  header_value_def http_whitespace_def token_truthy_def Let_def

lemmas eval_http1 =
  http1_def request1_def respond1_def error_message1_def res_ok_def show_nat.simps

lemmas eval_http2 =
  http2_def request2_def respond2_def error_message2_def error_detail2_def













section \<open>Responses: credential invalidation and error messages\<close>

lemma respond1_storage:
  "snd (respond1 pf init res ls) =
     (if res_status res = 401
      then (if denied ls then ls else ls\<lparr>items := (items ls)(TOKEN_KEY := None)\<rparr>)
      else ls)"
  by (simp add: respond1_def clearToken1_value split: sum.splits)

lemma res_ok_401: "res_status res = 401 \<Longrightarrow> \<not> res_ok res"
  by (simp add: res_ok_def)

lemma res_ok_403: "res_status res = 403 \<Longrightarrow> \<not> res_ok res"
  by (simp add: res_ok_def)

lemma respond1_not_ok:
  "\<not> res_ok res \<Longrightarrow> fst (respond1 pf init res ls) = Inl (Error (error_message1 pf res))"
  by (simp add: respond1_def clearToken1_value)

lemma http1_response:
  "request1 pf path init ls = Inr req \<Longrightarrow> net req = Inr res \<Longrightarrow>
   http1 pf net path init ls = respond1 pf init res ls"
  by (simp add: http1_def)

lemma http2_response:
  "request2 pf base path init ls = Inr req \<Longrightarrow> net req = Inr res \<Longrightarrow>
   http2 pf net base path init ls = (respond2 pf init res, ls)"
  by (simp add: http2_def)




text \<open>
  Claim C5, as the code has it. In the first variant a response with status 401 makes
  \<open>http\<close> itself remove the stored token before it throws, so that \<open>getToken\<close> then
  returns \<^verbatim>\<open>null\<close> with no call of \<open>logout\<close>. A response with status 403 makes the
  helper throw and leaves the storage as it was, in both variants.
\<close>

theorem http_unauthorized_clears_token:
  "(request1 pf path init ls = Inr req \<longrightarrow> net req = Inr res \<longrightarrow> res_status res = 401 \<longrightarrow>
      fst (http1 pf net path init ls) = Inl (Error (error_message1 pf res)) \<and>
      getToken1 (snd (http1 pf net path init ls)) = Inr None) \<and>
   (request1 pf path init ls = Inr req \<longrightarrow> net req = Inr res \<longrightarrow> res_status res = 403 \<longrightarrow>
      fst (http1 pf net path init ls) = Inl (Error (error_message1 pf res)) \<and>
      snd (http1 pf net path init ls) = ls) \<and>
   (request2 pf base path init ls = Inr req' \<longrightarrow> net req' = Inr res' \<longrightarrow>
      res_status res' = 403 \<longrightarrow>
      fst (http2 pf net base path init ls) = Inl (Error (error_message2 pf res')) \<and>
      snd (http2 pf net base path init ls) = ls)"
  by (simp add: http1_response http2_response respond1_storage respond1_not_ok res_ok_401
      res_ok_403 getToken1_value respond2_def)

theorem http_unauthorized_clears_token_witness:
  "getToken1 (example_storage ''abc'') = Inr (Some ''abc'') \<and>
   fst (http1 example_platform
          (\<lambda>req. Inr (json_reply 401 ''Unauthorized'' (JObj [(''detail'', JStr ''Expired'')])))
          ''/auth/me'' no_init (example_storage ''abc'')) = Inl (Error ''Expired'') \<and>
   getToken1 (snd (http1 example_platform
          (\<lambda>req. Inr (json_reply 401 ''Unauthorized'' (JObj [(''detail'', JStr ''Expired'')])))
          ''/auth/me'' no_init (example_storage ''abc''))) = Inr None \<and>
   snd (http1 example_platform
          (\<lambda>req. Inr (json_reply 403 ''Forbidden'' (JObj [(''detail'', JStr ''Admin only'')])))
          ''/admin/stats'' no_init (example_storage ''abc'')) = example_storage ''abc'' \<and>
   snd (http2 example_platform
          (\<lambda>req. Inr (json_reply 403 ''Forbidden'' (JObj [(''detail'', JStr ''Admin only'')])))
          ''/api'' ''/admin/stats'' no_init (example_storage ''abc'')) = example_storage ''abc''"
proof -
  obtain r1 where r1: "request1 example_platform ''/auth/me'' no_init (example_storage ''abc'')
                        = Inr r1"
    by (simp add: request1_def getToken1_value eval_request eval_examples)
  obtain r2 where r2: "request1 example_platform ''/admin/stats'' no_init
                         (example_storage ''abc'') = Inr r2"
    by (simp add: request1_def getToken1_value eval_request eval_examples)
  obtain r3 where r3: "request2 example_platform ''/api'' ''/admin/stats'' no_init
                         (example_storage ''abc'') = Inr r3"
    by (simp add: request2_def getToken2_value eval_request eval_examples)
  have e: "error_message1 example_platform (json_reply 401 ''Unauthorized'' (JObj [(''detail'', JStr ''Expired'')]))
             = ''Expired''"
    by (simp add: error_message1_def json_reply_def get_prop_def)
  have g: "getToken1 (example_storage ''abc'') = Inr (Some ''abc'')"
    by (simp add: getToken1_value example_storage_def)
  from http_unauthorized_clears_token
         [where pf = example_platform and path = "''/auth/me''" and init = no_init
            and ls = "example_storage ''abc''" and req = r1
            and net = "\<lambda>req. Inr (json_reply 401 ''Unauthorized''
                                    (JObj [(''detail'', JStr ''Expired'')]))"
            and res = "json_reply 401 ''Unauthorized'' (JObj [(''detail'', JStr ''Expired'')])"]
       r1 e
  have a1: "fst (http1 example_platform
          (\<lambda>req. Inr (json_reply 401 ''Unauthorized'' (JObj [(''detail'', JStr ''Expired'')])))
          ''/auth/me'' no_init (example_storage ''abc'')) = Inl (Error ''Expired'') \<and>
   getToken1 (snd (http1 example_platform
          (\<lambda>req. Inr (json_reply 401 ''Unauthorized'' (JObj [(''detail'', JStr ''Expired'')])))
          ''/auth/me'' no_init (example_storage ''abc''))) = Inr None"
    by (simp add: json_reply_def)
  from http_unauthorized_clears_token
         [where pf = example_platform and path = "''/admin/stats''" and init = no_init
            and ls = "example_storage ''abc''" and req = r2 and req' = r3
            and base = "''/api''"
            and net = "\<lambda>req. Inr (json_reply 403 ''Forbidden''
                                    (JObj [(''detail'', JStr ''Admin only'')]))"
            and res = "json_reply 403 ''Forbidden'' (JObj [(''detail'', JStr ''Admin only'')])"
            and res' = "json_reply 403 ''Forbidden'' (JObj [(''detail'', JStr ''Admin only'')])"]
       r2 r3
  have a2: "snd (http1 example_platform
          (\<lambda>req. Inr (json_reply 403 ''Forbidden'' (JObj [(''detail'', JStr ''Admin only'')])))
          ''/admin/stats'' no_init (example_storage ''abc'')) = example_storage ''abc'' \<and>
   snd (http2 example_platform
          (\<lambda>req. Inr (json_reply 403 ''Forbidden'' (JObj [(''detail'', JStr ''Admin only'')])))
          ''/api'' ''/admin/stats'' no_init (example_storage ''abc'')) = example_storage ''abc''"
    by (simp add: json_reply_def)
  from g a1 a2 show ?thesis by blast
qed

text \<open>
  The claim as stated fails on a 403 in the first variant and on a 401 in the second:
  after either, the token is still in the storage and \<open>getToken\<close> returns it.
\<close>

theorem http_unauthorized_counterexample:
  "getToken1 (snd (http1 example_platform
          (\<lambda>req. Inr (json_reply 403 ''Forbidden'' (JObj [(''detail'', JStr ''Admin only'')])))
          ''/admin/stats'' no_init (example_storage ''abc''))) = Inr (Some ''abc'') \<and>
   getToken2 (snd (http2 example_platform
          (\<lambda>req. Inr (json_reply 401 ''Unauthorized'' (JObj [(''detail'', JStr ''Expired'')])))
          ''/api'' ''/me'' no_init (example_storage ''abc''))) = Inr (Some ''abc'')"
  by (simp add: eval_http1 eval_http2 eval_request eval_examples eval_js
      getToken1_value getToken2_value clearToken1_value)

text \<open>
  The message of the first variant, case by case: the \<open>detail\<close> string; the \<open>msg\<close> of the
  first element of a \<open>detail\<close> array; \<^verbatim>\<open>HTTP <status>\<close> when the body is not JSON.
\<close>

lemma http1_throws_on_failure:
  assumes "request1 pf path init ls = Inr req" and "net req = Inr res" and "\<not> res_ok res"
  shows "fst (http1 pf net path init ls) = Inl (Error (error_message1 pf res))"
  using assms by (simp add: http1_response respond1_not_ok)

lemma error_message1_detail_string:
  "res_json res = Inr j \<Longrightarrow> get_prop j ''detail'' = JStr s \<Longrightarrow> error_message1 pf res = s"
  by (simp add: error_message1_def)

lemma error_message1_detail_array:
  assumes "res_json res = Inr j" and "get_prop j ''detail'' = JArr (x # xs)"
    and "get_prop x ''msg'' = JStr m" and "m \<noteq> []"
  shows "error_message1 pf res = m"
  using assms by (simp add: error_message1_def isArray_def first_element_def truthy_def)

lemma error_message1_no_json:
  "res_json res = Inl e \<Longrightarrow> error_message1 pf res = ''HTTP '' @ show_nat (res_status res)"
  by (simp add: error_message1_def)

lemma error_message2_detail_string:
  assumes "res_json res = Inr j" and "truthy j" and "get_prop j ''detail'' = JStr s"
    and "s \<noteq> []"
  shows "error_message2 pf res = s"
  using assms by (simp add: error_message2_def error_detail2_def nullish_def truthy_def)

lemma error_message2_no_body:
  assumes "res_json res = Inl e" and "res_text res = Inl e'"
  shows "error_message2 pf res = show_nat (res_status res) @ '' '' @ res_statusText res"
  using assms by (simp add: error_message2_def error_detail2_def truthy_def)

text \<open>
  Claim C8 at a validation error. The response has status 422 and the body
  \<^verbatim>\<open>{"detail": [{"msg": "field required"}]}\<close>. The second variant passes the whole
  \<open>detail\<close> array to \<^verbatim>\<open>new Error\<close>, whose message is then the array converted to a
  string; the first variant throws the \<open>msg\<close> of the first element.
\<close>

theorem http2_validation_error_message:
  "fst (http2 example_platform
          (\<lambda>req. Inr (json_reply 422 ''Unprocessable Entity''
             (JObj [(''detail'', JArr [JObj [(''msg'', JStr ''field required'')]])])))
          ''/api'' ''/library/1/ratings'' no_init (example_storage ''abc''))
     = Inl (Error ''[object Object]'') \<and>
   fst (http1 example_platform
          (\<lambda>req. Inr (json_reply 422 ''Unprocessable Entity''
             (JObj [(''detail'', JArr [JObj [(''msg'', JStr ''field required'')]])])))
          ''/library/1/ratings'' no_init (example_storage ''abc''))
     = Inl (Error ''field required'')"
  by (simp add: eval_http1 eval_http2 eval_request eval_examples eval_js
      getToken1_value getToken2_value clearToken1_value)

section \<open>Login: when the token is persisted\<close>















section \<open>Stale loads are discarded\<close>

text \<open>
  The invariant of the flags: every generation but the one whose cleanup React holds has
  its \<open>cancelled\<close> variable set, and the cleanup React holds is of a generation that
  exists.
\<close>

lemma run_cleanup_fields:
  "view (run_cleanup h) = view h" "issued (run_cleanup h) = issued h"
  "pending_cleanup (run_cleanup h) = None"
  "flags (run_cleanup h) g = (flags h g \<or> pending_cleanup h = Some g)"
  by (auto simp: run_cleanup_def split: option.splits)

lemma hook_step_issued_mono: "issued h \<le> issued (hook_step body settle h ev)"
  by (cases ev) (simp_all add: hook_step_def run_effect_def Let_def run_cleanup_fields)

lemma hook_step_invariant:
  assumes "\<forall>g. g < issued h \<longrightarrow> pending_cleanup h \<noteq> Some g \<longrightarrow> flags h g"
    and "\<forall>g. pending_cleanup h = Some g \<longrightarrow> g < issued h"
  shows "(\<forall>g. g < issued (hook_step body settle h ev) \<longrightarrow>
              pending_cleanup (hook_step body settle h ev) \<noteq> Some g \<longrightarrow>
              flags (hook_step body settle h ev) g) \<and>
         (\<forall>g. pending_cleanup (hook_step body settle h ev) = Some g \<longrightarrow>
              g < issued (hook_step body settle h ev))"
proof (cases ev)
  case (Render d)
  with assms show ?thesis
    by (auto simp: hook_step_def run_effect_def Let_def run_cleanup_fields less_Suc_eq)
next
  case (Settle g out)
  with assms show ?thesis
    by (simp add: hook_step_def)
next
  case Unmount
  with assms show ?thesis
    by (auto simp: hook_step_def run_cleanup_fields)
qed

lemma hook_run_snoc:
  "hook_run body settle h (evs @ [ev]) = hook_step body settle (hook_run body settle h evs) ev"
  by (simp add: hook_run_def)

lemma hook_run_append:
  "hook_run body settle h (evs @ evs') = hook_run body settle (hook_run body settle h evs) evs'"
  by (simp add: hook_run_def)

lemma hook_run_Cons:
  "hook_run body settle h (ev # evs) = hook_run body settle (hook_step body settle h ev) evs"
  by (simp add: hook_run_def)

lemma hook_run_invariant:
  "(\<forall>g. g < issued (hook_run body settle (hook_init v) evs) \<longrightarrow>
        pending_cleanup (hook_run body settle (hook_init v) evs) \<noteq> Some g \<longrightarrow>
        flags (hook_run body settle (hook_init v) evs) g) \<and>
   (\<forall>g. pending_cleanup (hook_run body settle (hook_init v) evs) = Some g \<longrightarrow>
        g < issued (hook_run body settle (hook_init v) evs))"
proof (induction evs rule: rev_induct)
  case Nil
  show ?case by (simp add: hook_run_def hook_init_def)
next
  case (snoc ev evs)
  then show ?case
    unfolding hook_run_snoc by (intro hook_step_invariant) blast+
qed

lemma superseded_step:
  assumes "g < issued h" and "pending_cleanup h \<noteq> Some g"
  shows "g < issued (hook_step body settle h ev) \<and>
         pending_cleanup (hook_step body settle h ev) \<noteq> Some g"
  using assms
  by (cases ev) (auto simp: hook_step_def run_effect_def Let_def run_cleanup_fields)

lemma superseded_run:
  assumes "g < issued h" and "pending_cleanup h \<noteq> Some g"
  shows "g < issued (hook_run body settle h evs) \<and>
         pending_cleanup (hook_run body settle h evs) \<noteq> Some g"
  using assms
proof (induction evs arbitrary: h)
  case Nil
  then show ?case by (simp add: hook_run_def)
next
  case (Cons ev evs)
  from superseded_step [OF Cons.prems, of body settle ev]
  show ?case unfolding hook_run_Cons by (intro Cons.IH) simp_all
qed

lemma render_supersedes:
  assumes "g < issued h"
  shows "g < issued (hook_step body settle h (Render d)) \<and>
         pending_cleanup (hook_step body settle h (Render d)) \<noteq> Some g"
  using assms by (auto simp: hook_step_def run_effect_def Let_def run_cleanup_fields)

lemma settle_cancelled:
  assumes "\<And>out v. settle out True v = v" and "flags h g"
  shows "hook_step body settle h (Settle g out) = h"
  using assms by (simp add: hook_step_def)

lemma stale_settle_discarded:
  assumes quiet: "\<And>out v. settle out True v = v"
    and g: "g < issued (hook_run body settle (hook_init v) evs)"
  shows "hook_step body settle
           (hook_run body settle (hook_init v) (evs @ Render d # evs')) (Settle g out) =
         hook_run body settle (hook_init v) (evs @ Render d # evs')"
proof -
  let ?before = "hook_run body settle (hook_init v) evs"
  let ?now = "hook_run body settle (hook_init v) (evs @ Render d # evs')"
  have h: "?now = hook_run body settle (hook_step body settle ?before (Render d)) evs'"
    by (simp add: hook_run_def)
  from render_supersedes [OF g, of body settle d]
  have "g < issued ?now \<and> pending_cleanup ?now \<noteq> Some g"
    unfolding h by (intro superseded_run) simp_all
  with hook_run_invariant [of body settle v "evs @ Render d # evs'"]
  have "flags ?now g" by blast
  with quiet show ?thesis by (rule settle_cancelled)
qed

lemma fetchShow_settle_cancelled: "fetchShow_settle out True s = s"
  by (simp add: fetchShow_settle_def Let_def split: sum.splits)

lemma fetchFavorites_settle_cancelled: "fetchFavorites_settle out True sd = sd"
  by (simp add: fetchFavorites_settle_def Let_def split: sum.splits)

lemma fetchNotInterested_settle_cancelled: "fetchNotInterested_settle out True sd = sd"
  by (simp add: fetchNotInterested_settle_def Let_def split: sum.splits)

lemma library_settle_cancelled: "library_settle out True sd = sd"
  by (cases out)
    (simp_all add: library_settle_def fetchFavorites_settle_cancelled
      fetchNotInterested_settle_cancelled)

text \<open>
  Claim C2. A load of generation \<open>G1\<close> has been started; then the effect runs again
  (the second trigger, which starts the next generation or returns early); then
  anything happens, in any order: loads settle, the effect runs again, the component
  unmounts. When the load of generation \<open>G1\<close> then settles, with any outcome, nothing
  changes. This holds for the show effect of \<open>useTmdbShow\<close> and for the library effect
  of \<open>ShowDetails\<close>, whose two loads share the flag.
\<close>

theorem stale_load_never_mutates:
  "(G1 < issued (hook_run useTmdbShow_effect fetchShow_settle (hook_init s0) evs) \<longrightarrow>
      hook_step useTmdbShow_effect fetchShow_settle
        (hook_run useTmdbShow_effect fetchShow_settle (hook_init s0) (evs @ Render d # evs'))
        (Settle G1 out) =
      hook_run useTmdbShow_effect fetchShow_settle (hook_init s0) (evs @ Render d # evs')) \<and>
   (L1 < issued (hook_run library_effect library_settle (hook_init sd0) levs) \<longrightarrow>
      hook_step library_effect library_settle
        (hook_run library_effect library_settle (hook_init sd0) (levs @ Render u # levs'))
        (Settle L1 lout) =
      hook_run library_effect library_settle (hook_init sd0) (levs @ Render u # levs'))"
  by (intro conjI impI stale_settle_discarded fetchShow_settle_cancelled
      library_settle_cancelled)

lemmas eval_hooks =
  hook_run_def hook_step_def run_effect_def run_cleanup_def hook_init_def Let_def

lemmas eval_show_effect =
  useTmdbShow_effect_def fetchShow_settle_def invalid_id_def isFinite_def num_le0_def
  show_state_init_def res_ok_def json_reply_def

lemmas eval_library_effect =
  library_effect_def library_settle_def fetchFavorites_start_def fetchFavorites_settle_def
  fetchNotInterested_start_def fetchNotInterested_settle_def show_details_init_def
  truthy_def num_truthy_def nullish_def coalesce_def get_prop_def

text \<open>
  The show page is opened for show 42 and then for show 8; the load for 8 settles
  first. The view then holds show 8, and the late answer for show 42 leaves it so. In
  the same way a late list of favourites for a previous user (here \<open>[42]\<close>) leaves the
  list of the current user (\<open>[8]\<close>) as it is.
\<close>

theorem stale_load_never_mutates_witness:
  "0 < issued (hook_run useTmdbShow_effect fetchShow_settle (hook_init show_state_init)
         [Render (Some (Finite 42))]) \<and>
   view (hook_run useTmdbShow_effect fetchShow_settle (hook_init show_state_init)
     ([Render (Some (Finite 42))] @ Render (Some (Finite 8)) #
      [Settle 1 (Inr (json_reply 200 ''OK'' (JObj [(''id'', JNum (Finite 8))])))]))
     = \<lparr>st_data = Some (JObj [(''id'', JNum (Finite 8))]), st_loading = False,
        st_error = None\<rparr> \<and>
   hook_step useTmdbShow_effect fetchShow_settle
     (hook_run useTmdbShow_effect fetchShow_settle (hook_init show_state_init)
       ([Render (Some (Finite 42))] @ Render (Some (Finite 8)) #
        [Settle 1 (Inr (json_reply 200 ''OK'' (JObj [(''id'', JNum (Finite 8))])))]))
     (Settle 0 (Inr (json_reply 200 ''OK'' (JObj [(''id'', JNum (Finite 42))]))))
     = hook_run useTmdbShow_effect fetchShow_settle (hook_init show_state_init)
       ([Render (Some (Finite 42))] @ Render (Some (Finite 8)) #
        [Settle 1 (Inr (json_reply 200 ''OK'' (JObj [(''id'', JNum (Finite 8))])))]) \<and>
   0 < issued (hook_run library_effect library_settle (hook_init show_details_init)
         [Render (JNum (Finite 1))]) \<and>
   favoriteIds (view (hook_run library_effect library_settle (hook_init show_details_init)
     ([Render (JNum (Finite 1))] @ Render (JNum (Finite 2)) #
      [Settle 1 (FavoritesSettled (Inr (Some [JObj [(''tmdb_id'', JNum (Finite 8))]])))])))
     = [Finite 8] \<and>
   hook_step library_effect library_settle
     (hook_run library_effect library_settle (hook_init show_details_init)
       ([Render (JNum (Finite 1))] @ Render (JNum (Finite 2)) #
        [Settle 1 (FavoritesSettled (Inr (Some [JObj [(''tmdb_id'', JNum (Finite 8))]])))]))
     (Settle 0 (FavoritesSettled (Inr (Some [JObj [(''tmdb_id'', JNum (Finite 42))]]))))
     = hook_run library_effect library_settle (hook_init show_details_init)
       ([Render (JNum (Finite 1))] @ Render (JNum (Finite 2)) #
        [Settle 1 (FavoritesSettled (Inr (Some [JObj [(''tmdb_id'', JNum (Finite 8))]])))])"
proof -
  have i1: "0 < issued (hook_run useTmdbShow_effect fetchShow_settle
              (hook_init show_state_init) [Render (Some (Finite 42))])"
    by (simp add: eval_hooks eval_show_effect)
  have i2: "0 < issued (hook_run library_effect library_settle (hook_init show_details_init)
              [Render (JNum (Finite 1))])"
    by (simp add: eval_hooks eval_library_effect)
  have v1: "view (hook_run useTmdbShow_effect fetchShow_settle (hook_init show_state_init)
     ([Render (Some (Finite 42))] @ Render (Some (Finite 8)) #
      [Settle 1 (Inr (json_reply 200 ''OK'' (JObj [(''id'', JNum (Finite 8))])))]))
     = \<lparr>st_data = Some (JObj [(''id'', JNum (Finite 8))]), st_loading = False,
        st_error = None\<rparr>"
    by (simp add: eval_hooks eval_show_effect)
  have v2: "favoriteIds (view (hook_run library_effect library_settle
     (hook_init show_details_init)
     ([Render (JNum (Finite 1))] @ Render (JNum (Finite 2)) #
      [Settle 1 (FavoritesSettled (Inr (Some [JObj [(''tmdb_id'', JNum (Finite 8))]])))])))
     = [Finite 8]"
    by (simp add: eval_hooks eval_library_effect)
  from stale_load_never_mutates
         [where ?G1.0 = 0 and ?s0.0 = show_state_init and evs = "[Render (Some (Finite 42))]"
            and d = "Some (Finite 8)"
            and evs' = "[Settle 1 (Inr (json_reply 200 ''OK''
                          (JObj [(''id'', JNum (Finite 8))])))]"
            and out = "Inr (json_reply 200 ''OK'' (JObj [(''id'', JNum (Finite 42))]))"
            and ?L1.0 = 0 and ?sd0.0 = show_details_init
            and levs = "[Render (JNum (Finite 1))]" and u = "JNum (Finite 2)"
            and levs' = "[Settle 1 (FavoritesSettled
                           (Inr (Some [JObj [(''tmdb_id'', JNum (Finite 8))]])))]"
            and lout = "FavoritesSettled (Inr (Some [JObj [(''tmdb_id'', JNum (Finite 42))]]))"]
       i1 i2 v1 v2
  show ?thesis by blast
qed

section \<open>Toggling a favourite when the remote call fails\<close>

lemma toggle_resolves: "fst (toggle addFavorite removeFavorite userId tmdbId hb) = Inr ()"
  by (simp add: toggle_def Let_def)

lemma handleToggleFavorite_resolves:
  "fst (handleToggleFavorite addFavorite removeFavorite data userId isAuthenticated sd)
     = Inr ()"
  by (simp add: handleToggleFavorite_def split: option.splits sum.splits)

lemma getTmdbId_truthy: "getTmdbId d = Some tid \<Longrightarrow> truthy d"
  by (simp add: getTmdbId_def split: if_splits)

text \<open>
  Claim C3, as the code has it. The show is not a favourite and the remote call that adds
  it fails with \<open>e\<close>. Then the local state still says that it is not a favourite: the
  code changes the state only after the call has succeeded. The error does not reach the
  caller: the function returns normally, and the error is written to the console (the
  button) or its message is shown to the user (the show page).
\<close>

theorem toggle_failure_keeps_state:
  "(\<not> hb_fav hb \<longrightarrow> canToggle userId tmdbId \<longrightarrow> \<not> hb_busy hb \<longrightarrow>
      addFavorite userId (the tmdbId) = Inl e \<longrightarrow>
      fst (toggle addFavorite removeFavorite userId tmdbId hb) = Inr () \<and>
      \<not> hb_fav (snd (toggle addFavorite removeFavorite userId tmdbId hb)) \<and>
      \<not> hb_busy (snd (toggle addFavorite removeFavorite userId tmdbId hb)) \<and>
      hb_changes (snd (toggle addFavorite removeFavorite userId tmdbId hb)) = hb_changes hb \<and>
      hb_console (snd (toggle addFavorite removeFavorite userId tmdbId hb))
        = hb_console hb @ [e]) \<and>
   (\<not> isFavorite sd (Some d) \<longrightarrow> getTmdbId d = Some tid \<longrightarrow> num_truthy tid \<longrightarrow>
      truthy uid \<longrightarrow> add uid tid = Inl e' \<longrightarrow>
      fst (handleToggleFavorite add remove (Some d) uid True sd) = Inr () \<and>
      \<not> isFavorite (snd (handleToggleFavorite add remove (Some d) uid True sd)) (Some d) \<and>
      favoriteIds (snd (handleToggleFavorite add remove (Some d) uid True sd))
        = favoriteIds sd \<and>
      alerts (snd (handleToggleFavorite add remove (Some d) uid True sd))
        = alerts sd @ [message_of e'])"
proof (intro conjI impI)
  assume "\<not> hb_fav hb" "canToggle userId tmdbId" "\<not> hb_busy hb"
    "addFavorite userId (the tmdbId) = Inl e"
  then show "fst (toggle addFavorite removeFavorite userId tmdbId hb) = Inr ()"
    "\<not> hb_fav (snd (toggle addFavorite removeFavorite userId tmdbId hb))"
    "\<not> hb_busy (snd (toggle addFavorite removeFavorite userId tmdbId hb))"
    "hb_changes (snd (toggle addFavorite removeFavorite userId tmdbId hb)) = hb_changes hb"
    "hb_console (snd (toggle addFavorite removeFavorite userId tmdbId hb))
       = hb_console hb @ [e]"
    by (simp_all add: toggle_def Let_def)
next
  assume nf: "\<not> isFavorite sd (Some d)" and id: "getTmdbId d = Some tid"
    and tr: "num_truthy tid" and u: "truthy uid" and fail: "add uid tid = Inl e'"
  from id have d: "truthy d" by (rule getTmdbId_truthy)
  from nf id tr d have out: "tid \<notin> set (favoriteIds sd)"
    by (simp add: isFavorite_def)
  from id tr d u fail out
  have run: "handleToggleFavorite add remove (Some d) uid True sd
               = (Inr (), sd\<lparr>alerts := alerts sd @ [message_of e']\<rparr>)"
    by (simp add: handleToggleFavorite_def)
  show "fst (handleToggleFavorite add remove (Some d) uid True sd) = Inr ()"
    by (simp add: run)
  show "\<not> isFavorite (snd (handleToggleFavorite add remove (Some d) uid True sd)) (Some d)"
    using out id tr d by (simp add: run isFavorite_def)
  show "favoriteIds (snd (handleToggleFavorite add remove (Some d) uid True sd))
          = favoriteIds sd"
    by (simp add: run)
  show "alerts (snd (handleToggleFavorite add remove (Some d) uid True sd))
          = alerts sd @ [message_of e']"
    by (simp add: run)
qed

lemmas eval_toggle =
  toggle_def canToggle_def num_truthy_def num_gt0_def Let_def

lemmas eval_handle =
  handleToggleFavorite_def getTmdbId_def isFavorite_def truthy_def get_prop_def
  show_details_init_def message_of_def

theorem toggle_failure_keeps_state_witness:
  "\<not> hb_fav \<lparr>hb_fav = False, hb_busy = False, hb_console = [], hb_changes = []\<rparr> \<and>
   canToggle (Finite 1) (Some (Finite 42)) \<and>
   fst (toggle (\<lambda>u t. Inl (Error ''HTTP 500'')) (\<lambda>u t. Inr JUndefined) (Finite 1)
          (Some (Finite 42))
          \<lparr>hb_fav = False, hb_busy = False, hb_console = [], hb_changes = []\<rparr>) = Inr () \<and>
   \<not> hb_fav (snd (toggle (\<lambda>u t. Inl (Error ''HTTP 500'')) (\<lambda>u t. Inr JUndefined) (Finite 1)
          (Some (Finite 42))
          \<lparr>hb_fav = False, hb_busy = False, hb_console = [], hb_changes = []\<rparr>)) \<and>
   hb_console (snd (toggle (\<lambda>u t. Inl (Error ''HTTP 500'')) (\<lambda>u t. Inr JUndefined) (Finite 1)
          (Some (Finite 42))
          \<lparr>hb_fav = False, hb_busy = False, hb_console = [], hb_changes = []\<rparr>))
     = [Error ''HTTP 500''] \<and>
   \<not> isFavorite show_details_init (Some (JObj [(''id'', JNum (Finite 42))])) \<and>
   getTmdbId (JObj [(''id'', JNum (Finite 42))]) = Some (Finite 42) \<and>
   fst (handleToggleFavorite (\<lambda>u t. Inl (Error ''HTTP 500'')) (\<lambda>u t. Inr JUndefined)
          (Some (JObj [(''id'', JNum (Finite 42))])) (JNum (Finite 1)) True
          show_details_init) = Inr () \<and>
   \<not> isFavorite (snd (handleToggleFavorite (\<lambda>u t. Inl (Error ''HTTP 500''))
          (\<lambda>u t. Inr JUndefined) (Some (JObj [(''id'', JNum (Finite 42))])) (JNum (Finite 1))
          True show_details_init)) (Some (JObj [(''id'', JNum (Finite 42))])) \<and>
   alerts (snd (handleToggleFavorite (\<lambda>u t. Inl (Error ''HTTP 500''))
          (\<lambda>u t. Inr JUndefined) (Some (JObj [(''id'', JNum (Finite 42))])) (JNum (Finite 1))
          True show_details_init)) = [''HTTP 500'']"
proof -
  have h1: "\<not> hb_fav \<lparr>hb_fav = False, hb_busy = False, hb_console = [], hb_changes = []\<rparr>"
    "\<not> hb_busy \<lparr>hb_fav = False, hb_busy = False, hb_console = [], hb_changes = []\<rparr>"
    by simp_all
  have h2: "canToggle (Finite 1) (Some (Finite 42))"
    by (simp add: canToggle_def num_truthy_def num_gt0_def)
  have h3: "\<not> isFavorite show_details_init (Some (JObj [(''id'', JNum (Finite 42))]))"
    by (simp add: eval_handle num_truthy_def)
  have h4: "getTmdbId (JObj [(''id'', JNum (Finite 42))]) = Some (Finite 42)"
    by (simp add: eval_handle num_truthy_def)
  have h5: "num_truthy (Finite 42)" "truthy (JNum (Finite 1))"
    by (simp_all add: truthy_def num_truthy_def)
  from toggle_failure_keeps_state
         [where hb = "\<lparr>hb_fav = False, hb_busy = False, hb_console = [], hb_changes = []\<rparr>"
            and userId = "Finite 1" and tmdbId = "Some (Finite 42)"
            and addFavorite = "\<lambda>u t. Inl (Error ''HTTP 500'')"
            and removeFavorite = "\<lambda>u t. Inr JUndefined" and e = "Error ''HTTP 500''"
            and sd = show_details_init and d = "JObj [(''id'', JNum (Finite 42))]"
            and tid = "Finite 42" and uid = "JNum (Finite 1)"
            and add = "\<lambda>u t. Inl (Error ''HTTP 500'')" and remove = "\<lambda>u t. Inr JUndefined"
            and e' = "Error ''HTTP 500''"]
       h1 h2 h3 h4 h5
  show ?thesis by (simp add: message_of_def show_details_init_def)
qed

text \<open>
  The claim as stated fails in its last part: with the remote call failing, both
  functions return normally, so the caller receives no error.
\<close>

theorem toggle_failure_counterexample:
  "fst (toggle (\<lambda>u t. Inl (Error ''HTTP 500'')) (\<lambda>u t. Inr JUndefined) (Finite 1)
          (Some (Finite 42))
          \<lparr>hb_fav = False, hb_busy = False, hb_console = [], hb_changes = []\<rparr>) = Inr () \<and>
   fst (handleToggleFavorite (\<lambda>u t. Inl (Error ''HTTP 500'')) (\<lambda>u t. Inr JUndefined)
          (Some (JObj [(''id'', JNum (Finite 42))])) (JNum (Finite 1)) True
          show_details_init) = Inr ()"
  by (simp add: eval_toggle eval_handle)

section \<open>Bulk loads replace one field\<close>































end
